theory Spec2Isabelle
  imports Complex_Main
begin

section \<open>Conventions of the embedding\<close>

text \<open>
  The analytical core of the expense tracker is embedded function by function.
  The numeric code is embedded twice. In the first embedding a float is the real number
  it denotes and the operations are exact; it serves the statements that do not depend
  on rounding (which estimators run, which branch is taken, the values on series where
  every operation is exact). The second embedding, under \<open>Double-precision arithmetic\<close>,
  rounds every operation as the interpreter does; it serves the statements that compare
  computed values with each other. A function that can raise returns a sum with \<open>Inl\<close>
  for the exception: \<open>py_error + 'a\<close> in the numeric code, and \<open>string + 'a\<close> with the
  text of the exception (\<open>str(e)\<close>) where the source catches it and reports that text.
  Database reads, the remote language model and the clock are parameters of the functions
  that use them.
\<close>

datatype py_error = ZeroDivisionError

text \<open>\<open>data[-k:]\<close> for an integer \<open>k\<close>: the last \<open>k\<close> items when \<open>k > 0\<close>, the whole
  list when \<open>k = 0\<close> (\<open>-0\<close> is \<open>0\<close>), and \<open>data[|k|:]\<close> when \<open>k < 0\<close>.\<close>

definition py_last_n :: "int \<Rightarrow> 'a list \<Rightarrow> 'a list" where
  "py_last_n k xs =
     (if 0 < k then drop (length xs - nat k) xs else drop (nat (- k)) xs)"

text \<open>\<open>np.mean\<close> and \<open>np.var\<close> (population variance), used on non-empty data only.\<close>

definition np_mean :: "real list \<Rightarrow> real" where
  "np_mean xs = sum_list xs / real (length xs)"

definition np_var :: "real list \<Rightarrow> real" where
  "np_var xs = np_mean (map (\<lambda>v. (v - np_mean xs)\<^sup>2) xs)"

section \<open>Time-series estimators (forecasting.py)\<close>

definition simple_moving_average :: "real list \<Rightarrow> int \<Rightarrow> py_error + real" where
  "simple_moving_average data window =
     (if int (length data) < window
      then Inr (if data \<noteq> [] then sum_list data / real (length data) else 0)
      else if window = 0 then Inl ZeroDivisionError
      else Inr (sum_list (py_last_n window data) / real_of_int window))"

fun smoothing_loop :: "real \<Rightarrow> real \<Rightarrow> real list \<Rightarrow> real" where
  "smoothing_loop alpha forecast [] = forecast"
| "smoothing_loop alpha forecast (v # vs) =
     smoothing_loop alpha (alpha * v + (1 - alpha) * forecast) vs"

definition exponential_smoothing :: "real list \<Rightarrow> real \<Rightarrow> real" where
  "exponential_smoothing data alpha =
     (case data of
        [] \<Rightarrow> 0
      | [x] \<Rightarrow> x
      | x # rest \<Rightarrow> smoothing_loop alpha x rest)"

definition linear_trend_forecast :: "real list \<Rightarrow> int \<Rightarrow> real" where
  "linear_trend_forecast data periods_ahead =
     (if length data < 2 then (case data of [] \<Rightarrow> 0 | d0 # _ \<Rightarrow> d0)
      else
        let n = length data;
            x = map real [0..<n];
            y = data;
            x_mean = np_mean x;
            y_mean = np_mean y;
            numerator = sum_list (map2 (\<lambda>xi yi. (xi - x_mean) * (yi - y_mean)) x y);
            denominator = sum_list (map (\<lambda>xi. (xi - x_mean)\<^sup>2) x)
        in if denominator = 0 then y_mean
           else
             let slope = numerator / denominator;
                 intercept = y_mean - slope * x_mean;
                 forecast = intercept + slope * (real n + real_of_int periods_ahead - 1)
             in max 0 forecast)"

record seasonal_result =
  trend :: real
  seasonal :: real
  seasonal_forecast :: real

definition seasonal_decomposition :: "real list \<Rightarrow> int \<Rightarrow> py_error + seasonal_result" where
  "seasonal_decomposition data period =
     (if int (length data) < period * 2
      then (case simple_moving_average data 3 of
              Inl e \<Rightarrow> Inl e
            | Inr t \<Rightarrow> Inr \<lparr>trend = t, seasonal = 0, seasonal_forecast = t\<rparr>)
      else
        (case simple_moving_average data period of
           Inl e \<Rightarrow> Inl e
         | Inr t \<Rightarrow>
             let detrended = map (\<lambda>v. v - t) data
             in if period \<le> int (length detrended) \<and> period = 0 then Inl ZeroDivisionError
                else
                  let s = (if period \<le> int (length detrended)
                           then sum_list (py_last_n period detrended) / real_of_int period
                           else 0);
                      forecast = t + s
                  in Inr \<lparr>trend = t, seasonal = s, seasonal_forecast = max 0 forecast\<rparr>))"

section \<open>Forecast aggregator (forecasting.py)\<close>

text \<open>The dictionary \<open>forecast_next_month\<close> returns; \<open>method_used\<close> is its key
  \<open>method\<close>, and a key that a branch leaves out is \<open>None\<close>. The two messages are kept
  as data (the transaction type, the average) rather than as formatted text.\<close>

datatype forecast_message = NoHistory string | LimitedData real

record forecast_result =
  forecast :: real
  method_used :: string
  confidence :: string
  message :: "forecast_message option"
  historical_data :: "real list option"
  variance :: "real option"
  mean :: "real option"

text \<open>The dictionary \<open>forecasts\<close> after the four guarded estimator calls, in insertion
  order. The window, the smoothing factor, the horizon and the period are the constants
  the source passes.\<close>

definition compute_forecasts :: "real list \<Rightarrow> string \<Rightarrow> py_error + (string \<times> real) list" where
  "compute_forecasts data mode =
     (case (if mode \<in> set [''auto'', ''sma'']
            then map_sum id (\<lambda>v. [(''sma'', v)]) (simple_moving_average data 3)
            else Inr []) of
        Inl e \<Rightarrow> Inl e
      | Inr f1 \<Rightarrow>
          let f2 = f1 @ (if mode \<in> set [''auto'', ''ema'']
                         then [(''ema'', exponential_smoothing data (3 / 10))] else []);
              f3 = f2 @ (if mode \<in> set [''auto'', ''linear'']
                         then [(''linear'', linear_trend_forecast data 1)] else [])
          in if mode \<in> set [''auto'', ''seasonal''] \<and> 6 \<le> length data
             then (case seasonal_decomposition data (min 12 (int (length data))) of
                     Inl e \<Rightarrow> Inl e
                   | Inr sr \<Rightarrow> Inr (f3 @ [(''seasonal'', seasonal_forecast sr)]))
             else Inr f3)"

text \<open>\<open>sum(forecasts.values()) / len(forecasts)\<close> in auto mode, and
  \<open>forecasts.get(method, forecasts.get('sma', 0))\<close> otherwise.\<close>

definition choose_forecast :: "(string \<times> real) list \<Rightarrow> string \<Rightarrow> py_error + real \<times> string" where
  "choose_forecast forecasts mode =
     (if mode = ''auto''
      then (if forecasts = [] then Inl ZeroDivisionError
            else Inr (sum_list (map snd forecasts) / real (length forecasts), ''ensemble''))
      else Inr (case map_of forecasts mode of
                  Some v \<Rightarrow> v
                | None \<Rightarrow> (case map_of forecasts ''sma'' of Some v \<Rightarrow> v | None \<Rightarrow> 0),
                mode))"

definition confidence_of :: "real list \<Rightarrow> string" where
  "confidence_of data =
     (let var = np_var data;
          m = np_mean data;
          cv = (if 0 < m then sqrt var / m else 0)
      in if cv < 2 / 10 then ''high''
         else if cv < 5 / 10 then ''medium''
         else ''low'')"

text \<open>\<open>forecast_next_month\<close>, with the series that \<open>get_historical_data\<close> read from the
  database (oldest month first) passed in as \<open>data\<close>.\<close>

definition forecast_next_month :: "real list \<Rightarrow> string \<Rightarrow> string \<Rightarrow> py_error + forecast_result" where
  "forecast_next_month data tx_type mode =
     (if data = []
      then Inr \<lparr>forecast = 0, method_used = ''no_data'', confidence = ''low'',
                message = Some (NoHistory tx_type), historical_data = None,
                variance = None, mean = None\<rparr>
      else if length data < 3
      then (let avg = sum_list data / real (length data)
            in Inr \<lparr>forecast = avg, method_used = ''average'', confidence = ''low'',
                     message = Some (LimitedData avg), historical_data = None,
                     variance = None, mean = None\<rparr>)
      else
        (case compute_forecasts data mode of
           Inl e \<Rightarrow> Inl e
         | Inr forecasts \<Rightarrow>
             (case choose_forecast forecasts mode of
                Inl e \<Rightarrow> Inl e
              | Inr (forecast_value, used_method) \<Rightarrow>
                  Inr \<lparr>forecast = forecast_value, method_used = used_method,
                       confidence = confidence_of data, message = None,
                       historical_data = Some data,
                       variance = Some (np_var data), mean = Some (np_mean data)\<rparr>)))"

section \<open>Double-precision arithmetic\<close>

text \<open>
  The identities that compare a computed value with another computed value exactly are
  sensitive to rounding, so the estimators are embedded a second time in the arithmetic
  the interpreter uses: every operation returns the exact result rounded to the nearest
  number with a 53-bit significand, ties to the even significand. The exponent range is
  not bounded here (no overflow to infinity, no subnormal numbers). A value of the
  float type is the real number it denotes.
\<close>

fun bit_length :: "nat \<Rightarrow> nat" where
  "bit_length n = (if n = 0 then 0 else Suc (bit_length (n div 2)))"

declare bit_length.simps [simp del]

text \<open>The binary exponent of a positive number \<open>a\<close>: the \<open>k\<close> with \<open>2^k \<le> a < 2^(k+1)\<close>.\<close>

definition f64_exponent :: "real \<Rightarrow> int" where
  "f64_exponent a =
     (if 1 \<le> a then int (bit_length (nat \<lfloor>a\<rfloor>)) - 1
      else - int (bit_length (nat (\<lceil>1 / a\<rceil> - 1))))"

definition round_half_even :: "real \<Rightarrow> int" where
  "round_half_even y =
     (let f = \<lfloor>y\<rfloor>; d = y - real_of_int f
      in if d < 1 / 2 then f
         else if 1 / 2 < d then f + 1
         else if even f then f else f + 1)"

definition f64_round :: "real \<Rightarrow> real" where
  "f64_round x =
     (if x = 0 then 0
      else let e = f64_exponent \<bar>x\<bar> - 52
           in real_of_int (round_half_even (x / 2 powi e)) * 2 powi e)"

definition f64_add :: "real \<Rightarrow> real \<Rightarrow> real" where
  "f64_add x y = f64_round (x + y)"

definition f64_sub :: "real \<Rightarrow> real \<Rightarrow> real" where
  "f64_sub x y = f64_round (x - y)"

definition f64_mul :: "real \<Rightarrow> real \<Rightarrow> real" where
  "f64_mul x y = f64_round (x * y)"

definition f64_div :: "real \<Rightarrow> real \<Rightarrow> real" where
  "f64_div x y = f64_round (x / y)"


text \<open>The built-in \<open>sum\<close> on a list of floats adds from the left, starting at the
  integer 0 (as CPython does up to version 3.11; later versions carry a correction term
  along).\<close>

definition py_sum_f64 :: "real list \<Rightarrow> real" where
  "py_sum_f64 xs = foldl f64_add 0 xs"

text \<open>\<open>np.sum\<close> on a one-dimensional float array: from the left below 8 items; with
  eight running sums that are combined pairwise up to 128 items, the items past the last
  full block of eight added at the end; and split in two above that.\<close>

fun eight_sums :: "real list \<Rightarrow> real list \<Rightarrow> real list" where
  "eight_sums r a =
     (if length a < 8 then r
      else eight_sums (map2 f64_add r (take 8 a)) (drop 8 a))"

declare eight_sums.simps [simp del]

function np_sum_f64 :: "real list \<Rightarrow> real" where
  "np_sum_f64 a =
     (let n = length a
      in if n < 8 then foldl f64_add 0 a
         else if n \<le> 128 then
           (let r = eight_sums (take 8 a) (drop 8 a);
                res = f64_add
                        (f64_add (f64_add (r ! 0) (r ! 1)) (f64_add (r ! 2) (r ! 3)))
                        (f64_add (f64_add (r ! 4) (r ! 5)) (f64_add (r ! 6) (r ! 7)))
            in foldl f64_add res (drop (n - n mod 8) a))
         else
           (let n2 = n div 2 - (n div 2) mod 8
            in f64_add (np_sum_f64 (take n2 a)) (np_sum_f64 (drop n2 a))))"
  by pat_completeness auto
termination
  by (relation "measure length") auto

declare np_sum_f64.simps [simp del]

section \<open>The estimators in double precision\<close>

definition simple_moving_average_f64 :: "real list \<Rightarrow> int \<Rightarrow> py_error + real" where
  "simple_moving_average_f64 data window =
     (if int (length data) < window
      then Inr (if data \<noteq> [] then f64_div (py_sum_f64 data) (real (length data)) else 0)
      else if window = 0 then Inl ZeroDivisionError
      else Inr (f64_div (py_sum_f64 (py_last_n window data)) (real_of_int window)))"

fun smoothing_loop_f64 :: "real \<Rightarrow> real \<Rightarrow> real list \<Rightarrow> real" where
  "smoothing_loop_f64 alpha fc [] = fc"
| "smoothing_loop_f64 alpha fc (v # vs) =
     smoothing_loop_f64 alpha
       (f64_add (f64_mul alpha v) (f64_mul (f64_sub 1 alpha) fc)) vs"

definition exponential_smoothing_f64 :: "real list \<Rightarrow> real \<Rightarrow> real" where
  "exponential_smoothing_f64 data alpha =
     (case data of
        [] \<Rightarrow> 0
      | [x] \<Rightarrow> x
      | x # rest \<Rightarrow> smoothing_loop_f64 alpha x rest)"

definition linear_trend_forecast_f64 :: "real list \<Rightarrow> int \<Rightarrow> real" where
  "linear_trend_forecast_f64 data periods_ahead =
     (if length data < 2 then (case data of [] \<Rightarrow> 0 | d0 # _ \<Rightarrow> d0)
      else
        let n = length data;
            x = map real [0..<n];
            y = data;
            x_mean = f64_div (np_sum_f64 x) (real n);
            y_mean = f64_div (np_sum_f64 y) (real n);
            numerator = np_sum_f64
              (map2 (\<lambda>xi yi. f64_mul (f64_sub xi x_mean) (f64_sub yi y_mean)) x y);
            denominator = np_sum_f64
              (map (\<lambda>xi. f64_mul (f64_sub xi x_mean) (f64_sub xi x_mean)) x)
        in if denominator = 0 then y_mean
           else
             let slope = f64_div numerator denominator;
                 intercept = f64_sub y_mean (f64_mul slope x_mean);
                 fc = f64_add intercept
                   (f64_mul slope (real n + real_of_int periods_ahead - 1))
             in max 0 fc)"

definition seasonal_decomposition_f64 :: "real list \<Rightarrow> int \<Rightarrow> py_error + seasonal_result" where
  "seasonal_decomposition_f64 data period =
     (if int (length data) < period * 2
      then (case simple_moving_average_f64 data 3 of
              Inl e \<Rightarrow> Inl e
            | Inr t \<Rightarrow> Inr \<lparr>trend = t, seasonal = 0, seasonal_forecast = t\<rparr>)
      else
        (case simple_moving_average_f64 data period of
           Inl e \<Rightarrow> Inl e
         | Inr t \<Rightarrow>
             let detrended = map (\<lambda>v. f64_sub v t) data
             in if period \<le> int (length detrended) \<and> period = 0 then Inl ZeroDivisionError
                else
                  let s = (if period \<le> int (length detrended)
                           then f64_div (py_sum_f64 (py_last_n period detrended))
                                  (real_of_int period)
                           else 0);
                      fc = f64_add t s
                  in Inr \<lparr>trend = t, seasonal = s, seasonal_forecast = max 0 fc\<rparr>))"

text \<open>The dictionary \<open>forecasts\<close> and the value under the key \<open>forecast\<close> of the
  result of \<open>forecast_next_month\<close>, in double precision. \<open>0.3\<close> is the float that the
  literal denotes.\<close>

definition compute_forecasts_f64 :: "real list \<Rightarrow> string \<Rightarrow> py_error + (string \<times> real) list" where
  "compute_forecasts_f64 data mode =
     (case (if mode \<in> set [''auto'', ''sma'']
            then map_sum id (\<lambda>v. [(''sma'', v)]) (simple_moving_average_f64 data 3)
            else Inr []) of
        Inl e \<Rightarrow> Inl e
      | Inr f1 \<Rightarrow>
          let f2 = f1 @ (if mode \<in> set [''auto'', ''ema'']
                         then [(''ema'', exponential_smoothing_f64 data (f64_round (3 / 10)))]
                         else []);
              f3 = f2 @ (if mode \<in> set [''auto'', ''linear'']
                         then [(''linear'', linear_trend_forecast_f64 data 1)] else [])
          in if mode \<in> set [''auto'', ''seasonal''] \<and> 6 \<le> length data
             then (case seasonal_decomposition_f64 data (min 12 (int (length data))) of
                     Inl e \<Rightarrow> Inl e
                   | Inr sr \<Rightarrow> Inr (f3 @ [(''seasonal'', seasonal_forecast sr)]))
             else Inr f3)"

definition choose_forecast_f64 :: "(string \<times> real) list \<Rightarrow> string \<Rightarrow> py_error + real" where
  "choose_forecast_f64 forecasts mode =
     (if mode = ''auto''
      then (if forecasts = [] then Inl ZeroDivisionError
            else Inr (f64_div (py_sum_f64 (map snd forecasts)) (real (length forecasts))))
      else Inr (case map_of forecasts mode of
                  Some v \<Rightarrow> v
                | None \<Rightarrow> (case map_of forecasts ''sma'' of Some v \<Rightarrow> v | None \<Rightarrow> 0)))"

definition forecast_value_f64 :: "real list \<Rightarrow> string \<Rightarrow> py_error + real" where
  "forecast_value_f64 data mode =
     (if data = [] then Inr 0
      else if length data < 3
      then Inr (f64_div (py_sum_f64 data) (real (length data)))
      else (case compute_forecasts_f64 data mode of
              Inl e \<Rightarrow> Inl e
            | Inr forecasts \<Rightarrow> choose_forecast_f64 forecasts mode))"


section \<open>Risk scorer (forecasting.py)\<close>

text \<open>One row of \<open>Budget.query\<close> together with the sum of the month's expenses of its
  category; the sum is \<open>None\<close> when the query returns NULL (\<open>scalar() or 0\<close>).\<close>

record budget_line =
  category_name :: string
  amount :: real
  spent_so_far :: "real option"

definition risk_of_projection :: "real \<Rightarrow> int" where
  "risk_of_projection projected_utilization =
     (if 120 < projected_utilization then 100
      else if 100 < projected_utilization then 80
      else if 90 < projected_utilization then 60
      else if 80 < projected_utilization then 40
      else 20)"

record line_projection =
  line_spent :: real
  line_budget :: real
  utilization :: real
  daily_avg :: real
  projected_total :: real
  projected_utilization :: real
  risk :: int

text \<open>The body of the loop over budgets; \<open>None\<close> is the \<open>continue\<close> of a zero budget.\<close>

definition project_line :: "int \<Rightarrow> int \<Rightarrow> budget_line \<Rightarrow> line_projection option" where
  "project_line current_day days_remaining b =
     (let spent = (case spent_so_far b of None \<Rightarrow> 0 | Some v \<Rightarrow> v);
          budget_amount = amount b
      in if budget_amount = 0 then None
         else
           let u = spent / budget_amount * 100;
               d = (if 0 < current_day then spent / real_of_int current_day else 0);
               pt = spent + d * real_of_int days_remaining;
               pu = pt / budget_amount * 100
           in Some \<lparr>line_spent = spent, line_budget = budget_amount, utilization = u,
                     daily_avg = d, projected_total = pt, projected_utilization = pu,
                     risk = risk_of_projection pu\<rparr>)"

record high_risk_category =
  hr_category :: string
  hr_risk :: int
  hr_spent :: real
  hr_budget :: real
  hr_projected :: real

fun risk_loop ::
  "int \<Rightarrow> int \<Rightarrow> budget_line list \<Rightarrow> int list \<Rightarrow> high_risk_category list
     \<Rightarrow> int list \<times> high_risk_category list" where
  "risk_loop current_day days_remaining [] risk_scores high = (risk_scores, high)"
| "risk_loop current_day days_remaining (b # bs) risk_scores high =
     (case project_line current_day days_remaining b of
        None \<Rightarrow> risk_loop current_day days_remaining bs risk_scores high
      | Some p \<Rightarrow>
          risk_loop current_day days_remaining bs (risk_scores @ [risk p])
            (if 60 \<le> risk p
             then high @ [\<lparr>hr_category = category_name b, hr_risk = risk p,
                            hr_spent = line_spent p, hr_budget = line_budget p,
                            hr_projected = projected_total p\<rparr>]
             else high))"

record risk_report =
  risk_score :: real
  risk_level :: string
  risk_message :: "string option"
  high_risk_categories :: "high_risk_category list option"
  total_budgets :: "nat option"
  days_left :: "int option"

text \<open>\<open>predict_budget_risk\<close>, with the budget rows and the day of the month and the
  length of the month (both read from the clock in the source) passed in. A key
  that a branch does not put in the returned dictionary is \<open>None\<close>; \<open>days_left\<close> is
  the key \<open>days_remaining\<close>.\<close>

definition predict_budget_risk :: "budget_line list \<Rightarrow> int \<Rightarrow> int \<Rightarrow> risk_report" where
  "predict_budget_risk budgets current_day days_in_month =
     (let days_remaining = days_in_month - current_day
      in if budgets = []
         then \<lparr>risk_score = 0, risk_level = ''none'',
               risk_message = Some ''No budgets set up.'',
               high_risk_categories = None, total_budgets = None, days_left = None\<rparr>
         else
           let (risk_scores, high) = risk_loop current_day days_remaining budgets [] [];
               avg_risk = (if risk_scores \<noteq> []
                           then real_of_int (sum_list risk_scores) / real (length risk_scores)
                           else 0);
               level = (if 80 \<le> avg_risk then ''critical''
                        else if 60 \<le> avg_risk then ''high''
                        else if 40 \<le> avg_risk then ''medium''
                        else ''low'')
           in \<lparr>risk_score = avg_risk, risk_level = level, risk_message = None,
                high_risk_categories = Some high, total_budgets = Some (length budgets),
                days_left = Some days_remaining\<rparr>)"

section \<open>Python values and strings\<close>

text \<open>JSON values as \<open>json.loads\<close> builds them; a dictionary is an association list with
  one binding per key, read with \<open>map_of\<close> and written with \<open>dict_set\<close>.\<close>

datatype json =
    JNull
  | JBool bool
  | JInt int
  | JFloat real
  | JStr string
  | JArr "json list"
  | JObj "(string \<times> json) list"

type_synonym py_dict = "(string \<times> json) list"

fun dict_set :: "('k \<times> 'v) list \<Rightarrow> 'k \<Rightarrow> 'v \<Rightarrow> ('k \<times> 'v) list" where
  "dict_set [] k v = [(k, v)]"
| "dict_set ((k', v') # kvs) k v =
     (if k' = k then (k, v) # kvs else (k', v') # dict_set kvs k v)"

definition dict_get :: "('k \<times> 'v) list \<Rightarrow> 'k \<Rightarrow> 'v \<Rightarrow> 'v" where
  "dict_get d k dflt = (case map_of d k of Some v \<Rightarrow> v | None \<Rightarrow> dflt)"




definition ascii_lower :: "char \<Rightarrow> char" where
  "ascii_lower c =
     (case map_of (zip ''ABCDEFGHIJKLMNOPQRSTUVWXYZ'' ''abcdefghijklmnopqrstuvwxyz'') c of
        Some l \<Rightarrow> l | None \<Rightarrow> c)"


definition py_lower :: "string \<Rightarrow> string" where
  "py_lower s = map ascii_lower s"

fun starts_with :: "string \<Rightarrow> string \<Rightarrow> bool" where
  "starts_with s [] = True"
| "starts_with [] (w # ws) = False"
| "starts_with (c # cs) (w # ws) = (c = w \<and> starts_with cs ws)"

text \<open>\<open>w in s\<close> on strings: \<open>w\<close> occurs in \<open>s\<close> as a contiguous piece.\<close>

fun py_in :: "string \<Rightarrow> string \<Rightarrow> bool" where
  "py_in w [] = (w = [])"
| "py_in w (c # cs) = (starts_with (c # cs) w \<or> py_in w cs)"


section \<open>Conversation context (context_manager.py)\<close>

text \<open>A message of the history; the fields are the keys of the dictionary that
  \<open>add_message\<close> appends. Times are seconds on the clock the caller passes in.\<close>

record chat_message =
  msg_role :: string
  msg_content :: string
  msg_timestamp :: nat
  msg_intent :: "string option"
  msg_entities :: py_dict

record conversation_context =
  user_id :: nat
  max_history :: nat
  messages :: "chat_message list"
  context_data :: py_dict
  last_intent :: "string option"
  last_entities :: py_dict
  session_start :: nat

text \<open>\<open>deque(maxlen=m).append(x)\<close>: a full deque drops its leftmost item, and a deque
  of capacity 0 stays empty.\<close>

definition deque_append :: "nat \<Rightarrow> 'a list \<Rightarrow> 'a \<Rightarrow> 'a list" where
  "deque_append maxlen xs x =
     (if maxlen = 0 then []
      else if length xs < maxlen then xs @ [x]
      else drop (Suc (length xs) - maxlen) (xs @ [x]))"

definition new_context :: "nat \<Rightarrow> nat \<Rightarrow> nat \<Rightarrow> conversation_context" where
  "new_context uid max_hist now =
     \<lparr>user_id = uid, max_history = max_hist, messages = [], context_data = [],
      last_intent = None, last_entities = [], session_start = now\<rparr>"

text \<open>The constructor call of the source, \<open>ConversationContext(user_id)\<close>, with the
  default capacity.\<close>

definition default_context :: "nat \<Rightarrow> nat \<Rightarrow> conversation_context" where
  "default_context uid now = new_context uid 10 now"

definition add_message ::
  "conversation_context \<Rightarrow> nat \<Rightarrow> string \<Rightarrow> string \<Rightarrow> string option \<Rightarrow> py_dict option
     \<Rightarrow> conversation_context" where
  "add_message ctx now role content intent entities =
     (let ents = (case entities of None \<Rightarrow> [] | Some e \<Rightarrow> e);
          message = \<lparr>msg_role = role, msg_content = content, msg_timestamp = now,
                     msg_intent = intent, msg_entities = ents\<rparr>;
          ctx1 = ctx\<lparr>messages := deque_append (max_history ctx) (messages ctx) message\<rparr>
      in if role = ''user'' \<and> intent \<noteq> None \<and> intent \<noteq> Some []
         then ctx1\<lparr>last_intent := intent, last_entities := ents\<rparr>
         else ctx1)"

definition set_context :: "conversation_context \<Rightarrow> string \<Rightarrow> json \<Rightarrow> conversation_context" where
  "set_context ctx key val = ctx\<lparr>context_data := dict_set (context_data ctx) key val\<rparr>"

definition clear_context :: "conversation_context \<Rightarrow> conversation_context" where
  "clear_context ctx = ctx\<lparr>context_data := [], last_intent := None, last_entities := []\<rparr>"

definition follow_up_patterns :: "(string \<times> string list) list" where
  "follow_up_patterns =
     [(''add_transaction'', [''add_transaction'', ''get_summary'']),
      (''get_summary'', [''add_transaction'', ''get_details'']),
      (''check_budget'', [''predict_budget'', ''add_transaction'']),
      (''forecast'', [''get_summary'', ''advice'']),
      (''nlp_query'', [''nlp_query'', ''get_details''])]"

definition is_follow_up :: "conversation_context \<Rightarrow> string option \<Rightarrow> bool" where
  "is_follow_up ctx current_intent =
     (case last_intent ctx of
        None \<Rightarrow> False
      | Some li \<Rightarrow>
          if li = [] then False
          else (case current_intent of
                  None \<Rightarrow> False
                | Some ci \<Rightarrow> ci \<in> set (dict_get follow_up_patterns li [])))"

definition extract_reference :: "conversation_context \<Rightarrow> string \<Rightarrow> py_dict" where
  "extract_reference ctx user_input =
     (let user_input_lower = py_lower user_input;
          r0 = [];
          r1 = (if list_ex (\<lambda>word. py_in word user_input_lower)
                     [''that'', ''this'', ''it'', ''same'']
                then
                  (let ra = (case map_of (last_entities ctx) ''category'' of
                               Some v \<Rightarrow> dict_set r0 ''category'' v | None \<Rightarrow> r0)
                   in (case map_of (last_entities ctx) ''amount'' of
                         Some v \<Rightarrow> dict_set ra ''amount'' v | None \<Rightarrow> ra))
                else r0)
      in if list_ex (\<lambda>word. py_in word user_input_lower)
              [''more'', ''details'', ''elaborate'', ''explain'']
         then dict_set (dict_set r1 ''expand_last'' (JBool True)) ''last_intent''
                (case last_intent ctx of None \<Rightarrow> JNull | Some li \<Rightarrow> JStr li)
         else r1)"

text \<open>The dictionary \<open>detect_intent_with_context\<close> returns; \<open>det_last_intent\<close> and
  \<open>det_context_data\<close> are its keys \<open>last_intent\<close> and \<open>context_data\<close>.\<close>

record intent_detection =
  det_is_follow_up :: bool
  det_references :: py_dict
  det_last_intent :: "string option"
  det_context_data :: py_dict

definition detect_intent_with_context :: "string \<Rightarrow> conversation_context \<Rightarrow> intent_detection" where
  "detect_intent_with_context user_input ctx =
     (let references = extract_reference ctx user_input;
          follow = (if last_intent ctx \<noteq> None \<and> last_intent ctx \<noteq> Some []
                    then is_follow_up ctx (last_intent ctx)
                    else False)
      in \<lparr>det_is_follow_up = follow, det_references = references,
           det_last_intent = last_intent ctx, det_context_data = context_data ctx\<rparr>)"

text \<open>A run of \<open>add_message\<close> calls, one per turn (time, role, content, intent,
  entities), in order.\<close>

type_synonym turn = "nat \<times> string \<times> string \<times> string option \<times> py_dict option"

fun append_turns :: "conversation_context \<Rightarrow> turn list \<Rightarrow> conversation_context" where
  "append_turns ctx [] = ctx"
| "append_turns ctx ((now, role, content, intent, entities) # ts) =
     append_turns (add_message ctx now role content intent entities) ts"

section \<open>Natural-language queries (nlp_to_sql.py)\<close>



















section \<open>Auxiliary facts\<close>

lemma sum_list_shift:
  "sum_list (map (\<lambda>v. v - t) xs) = sum_list xs - real (length xs) * (t::real)"
  by (induction xs) (simp_all add: algebra_simps)

lemma py_last_n_map: "py_last_n k (map f xs) = map f (py_last_n k xs)"
  by (simp add: py_last_n_def drop_map)

lemma length_py_last_n:
  "0 < k \<Longrightarrow> k \<le> int (length xs) \<Longrightarrow> length (py_last_n k xs) = nat k"
  by (simp add: py_last_n_def)

lemma sum_list_py_last_n_nonneg:
  "\<forall>v \<in> set xs. 0 \<le> (v::real) \<Longrightarrow> 0 \<le> sum_list (py_last_n k xs)"
  by (rule sum_list_nonneg) (auto simp: py_last_n_def split: if_splits dest: in_set_dropD)

lemma sma_returns: "window \<noteq> 0 \<Longrightarrow> \<exists>v. simple_moving_average data window = Inr v"
  by (simp add: simple_moving_average_def)

lemma seasonal_returns: "period \<noteq> 0 \<Longrightarrow> \<exists>sr. seasonal_decomposition data period = Inr sr"
  using sma_returns[of 3 data] sma_returns[of period data]
  by (auto simp: seasonal_decomposition_def Let_def)

lemma compute_forecasts_auto_returns:
  assumes "3 \<le> length data"
  shows "\<exists>fs. compute_forecasts data ''auto'' = Inr fs \<and> fs \<noteq> []"
proof -
  obtain v where v: "simple_moving_average data 3 = Inr v"
    using sma_returns[of 3 data] by auto
  have "min 12 (int (length data)) \<noteq> 0" using assms by simp
  then obtain sr where "seasonal_decomposition data (min 12 (int (length data))) = Inr sr"
    using seasonal_returns by blast
  with v show ?thesis
    by (simp add: compute_forecasts_def Let_def)
qed

lemma sum_list_lower:
  "\<forall>x \<in> set xs. m \<le> (x::real) \<Longrightarrow> real (length xs) * m \<le> sum_list xs"
  by (induction xs) (auto simp: algebra_simps)

lemma sum_list_upper:
  "\<forall>x \<in> set xs. (x::real) \<le> m \<Longrightarrow> sum_list xs \<le> real (length xs) * m"
  by (induction xs) (auto simp: algebra_simps)

lemma mean_between_min_max:
  assumes "xs \<noteq> []"
  shows "Min (set xs) \<le> sum_list xs / real (length xs)
         \<and> sum_list xs / real (length xs) \<le> Max (set xs)"
proof -
  have n: "0 < real (length xs)" using assms by simp
  have "real (length xs) * Min (set xs) \<le> sum_list xs"
    by (rule sum_list_lower) simp
  moreover have "sum_list xs \<le> real (length xs) * Max (set xs)"
    by (rule sum_list_upper) simp
  ultimately show ?thesis using n
    by (simp add: pos_le_divide_eq pos_divide_le_eq mult.commute)
qed

lemma confidence_of_scenario: "confidence_of [1000, 1100, 1050] = ''high''"
proof -
  have "sqrt (5000 / 3) < 210"
    by (rule real_less_lsqrt) simp_all
  then show ?thesis
    by (simp add: confidence_of_def np_var_def np_mean_def Let_def power2_eq_square)
qed

lemma compute_forecasts_scenario:
  "compute_forecasts [1000, 1100, 1050] ''auto''
     = Inr [(''sma'', 1050), (''ema'', 1036), (''linear'', 1100)]"
  by (simp add: compute_forecasts_def simple_moving_average_def py_last_n_def
      exponential_smoothing_def linear_trend_forecast_def np_mean_def Let_def)

lemma forecast_scenario_auto:
  "forecast_next_month [1000, 1100, 1050] ''expense'' ''auto''
     = Inr \<lparr>forecast = 1062, method_used = ''ensemble'', confidence = ''high'', message = None,
            historical_data = Some [1000, 1100, 1050], variance = Some (5000 / 3),
            mean = Some 1050\<rparr>"
  by (simp add: forecast_next_month_def compute_forecasts_scenario choose_forecast_def
      confidence_of_scenario np_var_def np_mean_def power2_eq_square)

text \<open>What a named mode returns on a series of three or more months: the estimator's own
  value for \<open>sma\<close>, \<open>ema\<close> and \<open>linear\<close>, and for \<open>seasonal\<close> once there are six
  months; \<open>seasonal\<close> on three to five months finds the dictionary empty.\<close>

lemma named_mode_forecasts:
  assumes "3 \<le> length data"
  shows "compute_forecasts data ''sma''
           = map_sum id (\<lambda>v. [(''sma'', v)]) (simple_moving_average data 3)"
    and "compute_forecasts data ''ema'' = Inr [(''ema'', exponential_smoothing data (3 / 10))]"
    and "compute_forecasts data ''linear'' = Inr [(''linear'', linear_trend_forecast data 1)]"
    and "6 \<le> length data \<Longrightarrow> compute_forecasts data ''seasonal''
           = map_sum id (\<lambda>sr. [(''seasonal'', seasonal_forecast sr)])
               (seasonal_decomposition data (min 12 (int (length data))))"
    and "length data < 6 \<Longrightarrow> compute_forecasts data ''seasonal'' = Inr []"
  by (auto simp: compute_forecasts_def Let_def split: sum.splits)

lemma risk_loop_skip:
  "amount b = 0 \<Longrightarrow>
     risk_loop current_day days_remaining (b # bs) scores high
       = risk_loop current_day days_remaining bs scores high"
  by (simp add: project_line_def)

text \<open>A line that is scored enters the list of scores, and the high-risk list from 60
  upwards.\<close>

lemma risk_loop_scores_line:
  "project_line current_day days_remaining b = Some p \<Longrightarrow>
     risk_loop current_day days_remaining (b # bs) scores high
       = risk_loop current_day days_remaining bs (scores @ [risk p])
           (if 60 \<le> risk p
            then high @ [\<lparr>hr_category = category_name b, hr_risk = risk p,
                           hr_spent = line_spent p, hr_budget = line_budget p,
                           hr_projected = projected_total p\<rparr>]
            else high)"
  by simp

lemma deque_append_length: "length xs \<le> m \<Longrightarrow> length (deque_append m xs x) \<le> m"
  by (simp add: deque_append_def)

lemma add_message_max_history [simp]:
  "max_history (add_message ctx now role content intent entities) = max_history ctx"
  by (simp add: add_message_def Let_def)

lemma add_message_messages:
  "messages (add_message ctx now role content intent entities)
     = deque_append (max_history ctx) (messages ctx)
         \<lparr>msg_role = role, msg_content = content, msg_timestamp = now, msg_intent = intent,
          msg_entities = (case entities of None \<Rightarrow> [] | Some e \<Rightarrow> e)\<rparr>"
  by (simp add: add_message_def Let_def)

lemma append_turns_bounded:
  "length (messages ctx) \<le> max_history ctx \<Longrightarrow>
     length (messages (append_turns ctx turns)) \<le> max_history ctx
     \<and> max_history (append_turns ctx turns) = max_history ctx"
proof (induction ctx turns rule: append_turns.induct)
  case (1 ctx)
  then show ?case by simp
next
  case (2 ctx now role content intent entities ts)
  have "length (messages (add_message ctx now role content intent entities)) \<le> max_history ctx"
    using "2.prems" by (simp add: add_message_messages deque_append_length)
  then show ?case using "2.IH" by simp
qed

lemma own_entry:
  "li \<in> set (dict_get follow_up_patterns li [])
     \<longleftrightarrow> li = ''add_transaction'' \<or> li = ''nlp_query''"
  by (auto simp: follow_up_patterns_def dict_get_def split: if_splits)









section \<open>Rounding errors\<close>




















section \<open>Double precision on concrete series\<close>

lemmas f64_eval = f64_round_def f64_exponent_def bit_length.simps round_half_even_def Let_def
  f64_add_def f64_sub_def f64_mul_def f64_div_def py_sum_f64_def










text \<open>The scenario series of the specification comes out the same in double precision as
  in exact arithmetic.\<close>

lemma f64_forecasts_scenario:
  "compute_forecasts_f64 [1000, 1100, 1050] ''auto''
     = Inr [(''sma'', 1050), (''ema'', 1036), (''linear'', 1100)]"
  by (simp add: compute_forecasts_f64_def simple_moving_average_f64_def py_last_n_def
      exponential_smoothing_f64_def linear_trend_forecast_f64_def np_sum_f64.simps f64_eval
      split del: if_split cong: sum.case_cong_weak)

lemma f64_value_scenario:
  "forecast_value_f64 [1000, 1100, 1050] ''auto'' = Inr 1062"
  by (simp add: forecast_value_f64_def f64_forecasts_scenario choose_forecast_f64_def)
     (simp add: f64_eval split del: if_split)

text \<open>So do the empty series and the mode \<open>seasonal\<close> on three months.\<close>

lemma f64_value_no_data: "forecast_value_f64 [] mode = Inr 0"
  by (simp add: forecast_value_f64_def)

lemma f64_value_seasonal_short:
  "forecast_value_f64 [1000, 1100, 1050] ''seasonal'' = Inr 0"
  by (simp add: forecast_value_f64_def compute_forecasts_f64_def choose_forecast_f64_def)

section \<open>The estimators in double precision return\<close>




section \<open>Empty history\<close>

text \<open>
  Claim C7. On the empty series every estimator returns 0 and raises nothing: the moving
  average for every window other than 0, exponential smoothing for every smoothing
  factor, the linear trend for every horizon, the seasonal decomposition (trend, seasonal
  component and forecast all 0) for every period other than 0; and the aggregator
  answers method \<open>no_data\<close>, confidence \<open>low\<close>, value 0, in every mode. (The source
  calls the estimators with window 3 and periods 6 to 12, and their defaults are 3 and
  12; a window or period of 0 divides by zero.)
\<close>

theorem C7_empty_series:
  "(window \<noteq> 0 \<longrightarrow> simple_moving_average [] window = Inr 0)
   \<and> exponential_smoothing [] alpha = 0
   \<and> linear_trend_forecast [] periods_ahead = 0
   \<and> (period \<noteq> 0 \<longrightarrow>
        seasonal_decomposition [] period
          = Inr \<lparr>trend = 0, seasonal = 0, seasonal_forecast = 0\<rparr>)
   \<and> (\<exists>r. forecast_next_month [] tx_type mode = Inr r
          \<and> forecast r = 0 \<and> method_used r = ''no_data'' \<and> confidence r = ''low'')"
  by (simp add: simple_moving_average_def exponential_smoothing_def py_last_n_def
      linear_trend_forecast_def seasonal_decomposition_def forecast_next_month_def)

theorem C7_empty_series_witness:
  "(3::int) \<noteq> 0 \<and> (12::int) \<noteq> 0
   \<and> simple_moving_average [] 3 = Inr 0
   \<and> seasonal_decomposition [] 12 = Inr \<lparr>trend = 0, seasonal = 0, seasonal_forecast = 0\<rparr>
   \<and> exponential_smoothing [] (3 / 10) = 0
   \<and> linear_trend_forecast [] 1 = 0"
  using C7_empty_series [of 3 "3 / 10" 1 12 "''expense''" "''auto''"] by simp

section \<open>The seasonal path\<close>

text \<open>In exact arithmetic the last \<open>period\<close> residuals are the last \<open>period\<close> values
  minus their own mean, so they sum to 0 and the seasonal path is the moving average.\<close>

lemma seasonal_exact_arithmetic:
  assumes "0 < period"
    and "2 * period \<le> int (length data)"
    and "\<forall>v \<in> set data. 0 \<le> v"
  shows "\<exists>t. simple_moving_average data period = Inr t
           \<and> seasonal_decomposition data period
               = Inr \<lparr>trend = t, seasonal = 0, seasonal_forecast = t\<rparr>"
proof -
  define t where "t = sum_list (py_last_n period data) / real_of_int period"
  have le: "period \<le> int (length data)" using assms by linarith
  have sma: "simple_moving_average data period = Inr t"
    using assms le by (simp add: simple_moving_average_def t_def)
  have t0: "0 \<le> t"
    unfolding t_def using assms sum_list_py_last_n_nonneg[of data period] by simp
  have "sum_list (py_last_n period (map (\<lambda>v. v - t) data))
          = sum_list (py_last_n period data) - real (nat period) * t"
    using assms le by (simp add: py_last_n_map sum_list_shift length_py_last_n)
  also have "\<dots> = 0" using assms by (simp add: t_def)
  finally have s0: "sum_list (py_last_n period (map (\<lambda>v. v - t) data)) = 0" .
  have "seasonal_decomposition data period
          = Inr \<lparr>trend = t, seasonal = 0, seasonal_forecast = t\<rparr>"
    using assms le sma s0 t0 by (simp add: seasonal_decomposition_def Let_def)
  with sma show ?thesis by blast
qed




section \<open>The aggregator on the series 1000, 1100, 1050\<close>

text \<open>
  Claim C3 as it is written gives exponential smoothing about 1034.5, a linear trend
  about 1083.3 and an ensemble about 1055.9. Each of the three is more than 1 away from
  what the code computes.
\<close>

theorem C3_scenario_values_counterexample:
  "1 < \<bar>exponential_smoothing [1000, 1100, 1050] (3 / 10) - 10345 / 10\<bar>
   \<and> 1 < \<bar>linear_trend_forecast [1000, 1100, 1050] 1 - 10833 / 10\<bar>
   \<and> 1 < \<bar>forecast (projr (forecast_next_month [1000, 1100, 1050] ''expense'' ''auto''))
            - 10559 / 10\<bar>"
  by (simp add: forecast_scenario_auto exponential_smoothing_def linear_trend_forecast_def
      np_mean_def Let_def)

text \<open>
  Claim C3, amended. For the series 1000, 1100, 1050 in auto mode the aggregator computes
  a moving average of 1050, exponential smoothing (factor 0.3) of 1036 and a linear trend
  of 1100, runs no seasonal estimator, and returns their mean 1062 as method
  \<open>ensemble\<close> with confidence \<open>high\<close>.
\<close>

theorem C3_scenario_auto:
  "simple_moving_average [1000, 1100, 1050] 3 = Inr 1050
   \<and> exponential_smoothing [1000, 1100, 1050] (3 / 10) = 1036
   \<and> linear_trend_forecast [1000, 1100, 1050] 1 = 1100
   \<and> compute_forecasts [1000, 1100, 1050] ''auto''
       = Inr [(''sma'', 1050), (''ema'', 1036), (''linear'', 1100)]
   \<and> forecast_next_month [1000, 1100, 1050] ''expense'' ''auto''
       = Inr \<lparr>forecast = 1062, method_used = ''ensemble'', confidence = ''high'', message = None,
              historical_data = Some [1000, 1100, 1050], variance = Some (5000 / 3),
              mean = Some 1050\<rparr>"
  by (simp add: forecast_scenario_auto compute_forecasts_scenario simple_moving_average_def
      py_last_n_def exponential_smoothing_def linear_trend_forecast_def np_mean_def Let_def)

section \<open>Named modes\<close>

text \<open>
  Claim C1 at the series 1000, 1100, 1050 in mode \<open>seasonal\<close>: the moving average of the
  series is 1050, no estimator is computed, and the aggregator returns 0 as the forecast
  of method \<open>seasonal\<close>, where the claim has the moving average.
\<close>

theorem C1_seasonal_on_short_series:
  "simple_moving_average [1000, 1100, 1050] 3 = Inr 1050
   \<and> compute_forecasts [1000, 1100, 1050] ''seasonal'' = Inr []
   \<and> forecast_next_month [1000, 1100, 1050] ''expense'' ''seasonal''
       = Inr \<lparr>forecast = 0, method_used = ''seasonal'', confidence = ''high'', message = None,
              historical_data = Some [1000, 1100, 1050], variance = Some (5000 / 3),
              mean = Some 1050\<rparr>"
  by (simp add: forecast_next_month_def compute_forecasts_def choose_forecast_def
      confidence_of_scenario simple_moving_average_def py_last_n_def np_var_def np_mean_def
      power2_eq_square)

section \<open>The ensemble\<close>

text \<open>In exact arithmetic the ensemble is the mean of the components and lies between the
  smallest and the largest of them.\<close>

lemma ensemble_exact_arithmetic:
  assumes "3 \<le> length data"
  shows "\<exists>fs r. compute_forecasts data ''auto'' = Inr fs \<and> fs \<noteq> []
           \<and> forecast_next_month data tx_type ''auto'' = Inr r
           \<and> method_used r = ''ensemble''
           \<and> Min (set (map snd fs)) \<le> forecast r
           \<and> forecast r \<le> Max (set (map snd fs))"
proof -
  obtain fs where fs: "compute_forecasts data ''auto'' = Inr fs" "fs \<noteq> []"
    using compute_forecasts_auto_returns[OF assms] by blast
  let ?v = "sum_list (map snd fs) / real (length fs)"
  have ch: "choose_forecast fs ''auto'' = Inr (?v, ''ensemble'')"
    using fs by (simp add: choose_forecast_def)
  have "data \<noteq> []" "\<not> length data < 3" using assms by auto
  then have r: "forecast_next_month data tx_type ''auto''
      = Inr \<lparr>forecast = ?v, method_used = ''ensemble'', confidence = confidence_of data,
             message = None, historical_data = Some data,
             variance = Some (np_var data), mean = Some (np_mean data)\<rparr>"
    using fs ch by (simp add: forecast_next_month_def)
  have "Min (set (map snd fs)) \<le> ?v \<and> ?v \<le> Max (set (map snd fs))"
    using mean_between_min_max[of "map snd fs"] fs by simp
  with fs r show ?thesis by simp
qed




section \<open>Budget risk\<close>

text \<open>
  Claim C5. A budget line with a positive amount is scored: its projected utilization is
  the projected month-end total over the amount, in percent, and its risk is 100 above
  120, 80 above 100, 60 above 90, 40 above 80 and 20 otherwise; with nothing spent the
  risk is 20. The score does not decrease when the projected utilization grows. A line
  with amount 0 is not scored, and the loop over the budgets passes it by, leaving the
  scores and the high-risk list as they were.
\<close>

theorem C5_risk_step_function:
  "(0 < amount b \<longrightarrow>
      (\<exists>p. project_line current_day days_remaining b = Some p
         \<and> projected_utilization p = projected_total p / amount b * 100
         \<and> risk p = (if 120 < projected_utilization p then 100
                      else if 100 < projected_utilization p then 80
                      else if 90 < projected_utilization p then 60
                      else if 80 < projected_utilization p then 40
                      else 20)
         \<and> (spent_so_far b = None \<or> spent_so_far b = Some 0 \<longrightarrow> risk p = 20)))
   \<and> (u \<le> v \<longrightarrow> risk_of_projection u \<le> risk_of_projection v)
   \<and> (amount b = 0 \<longrightarrow>
        project_line current_day days_remaining b = None
        \<and> risk_loop current_day days_remaining (b # bs) scores high
            = risk_loop current_day days_remaining bs scores high)"
  by (auto simp: project_line_def risk_of_projection_def Let_def split: option.splits)

theorem C5_risk_step_function_witness:
  "(\<exists>p. project_line 20 10 \<lparr>category_name = ''Food'', amount = 1000, spent_so_far = Some 900\<rparr>
          = Some p
        \<and> projected_total p = 1350 \<and> projected_utilization p = 135 \<and> risk p = 100)
   \<and> (\<exists>p. project_line 20 10 \<lparr>category_name = ''Rent'', amount = 500, spent_so_far = Some 0\<rparr>
          = Some p
        \<and> risk p = 20)
   \<and> (85::real) \<le> 95 \<and> risk_of_projection 85 = 40 \<and> risk_of_projection 95 = 60
   \<and> risk_loop 20 10 [\<lparr>category_name = ''Idle'', amount = 0, spent_so_far = Some 70\<rparr>] [] []
       = ([], [])"
  using
    C5_risk_step_function
      [of "\<lparr>category_name = ''Food'', amount = 1000, spent_so_far = Some 900\<rparr>"
          20 10 85 95 "[]" "[]" "[]"]
    C5_risk_step_function
      [of "\<lparr>category_name = ''Rent'', amount = 500, spent_so_far = Some 0\<rparr>"
          20 10 85 95 "[]" "[]" "[]"]
    C5_risk_step_function
      [of "\<lparr>category_name = ''Idle'', amount = 0, spent_so_far = Some 70\<rparr>"
          20 10 85 95 "[]" "[]" "[]"]
  by (simp add: project_line_def risk_of_projection_def)

section \<open>The conversation context\<close>

text \<open>
  Claim C6. Starting from a freshly constructed context, after any sequence of
  \<open>add_message\<close> calls the history holds at most 10 messages; one more call appends the
  new message, and when the history is full it drops the oldest one first. In every
  context whose \<open>last_intent\<close> is null, \<open>is_follow_up\<close> is false for every candidate.
\<close>

theorem C6_history_bounded:
  "length (messages (append_turns (default_context uid t0) turns)) \<le> 10
   \<and> messages (add_message (append_turns (default_context uid t0) turns)
                  now role content intent entities)
       = (let old = messages (append_turns (default_context uid t0) turns);
              m = \<lparr>msg_role = role, msg_content = content, msg_timestamp = now,
                   msg_intent = intent,
                   msg_entities = (case entities of None \<Rightarrow> [] | Some e \<Rightarrow> e)\<rparr>
          in if length old < 10 then old @ [m] else tl old @ [m])
   \<and> (last_intent ctx = None \<longrightarrow> \<not> is_follow_up ctx candidate)"
proof -
  let ?c = "append_turns (default_context uid t0) turns"
  have b: "length (messages ?c) \<le> 10 \<and> max_history ?c = 10"
    using append_turns_bounded[of "default_context uid t0" turns]
    by (simp add: default_context_def new_context_def)
  have e: "length (messages ?c) = 10 \<Longrightarrow> drop 1 (messages ?c @ [m]) = tl (messages ?c) @ [m]"
    for m
    by (cases "messages ?c") auto
  show ?thesis using b e
    by (auto simp: add_message_messages deque_append_def Let_def is_follow_up_def)
qed

theorem C6_history_bounded_witness:
  "last_intent (default_context 1 0) = None
   \<and> \<not> is_follow_up (default_context 1 0) (Some ''get_summary'')
   \<and> length (messages (append_turns (default_context 1 0)
         (map (\<lambda>n. (n, ''user'', ''hello'', None, None)) [0, 1, 2, 3, 4, 5, 6, 7, 8, 9, 10, 11])))
       \<le> 10
   \<and> map msg_timestamp (messages (append_turns (default_context 1 0)
         (map (\<lambda>n. (n, ''user'', ''hello'', None, None)) [0, 1, 2, 3, 4, 5, 6, 7, 8, 9, 10, 11])))
       = [2, 3, 4, 5, 6, 7, 8, 9, 10, 11]"
  using C6_history_bounded
    [of 1 0 "map (\<lambda>n. (n, ''user'', ''hello'', None, None)) [0, 1, 2, 3, 4, 5, 6, 7, 8, 9, 10, 11]"
        0 "''user''" "''hello''" None None "default_context 1 0" "Some ''get_summary''"]
  by (simp add: default_context_def new_context_def add_message_def deque_append_def Let_def)

text \<open>
  Claim C9. \<open>clear_context\<close> sets \<open>context_data\<close> to empty, \<open>last_intent\<close> to null and
  \<open>last_entities\<close> to empty, and leaves the message history as it was (and with it the
  capacity, the user id and the session start).
\<close>

theorem C9_clear_keeps_history:
  "context_data (clear_context ctx) = []
   \<and> last_intent (clear_context ctx) = None
   \<and> last_entities (clear_context ctx) = []
   \<and> messages (clear_context ctx) = messages ctx
   \<and> max_history (clear_context ctx) = max_history ctx
   \<and> user_id (clear_context ctx) = user_id ctx
   \<and> session_start (clear_context ctx) = session_start ctx"
  by (simp add: clear_context_def)

text \<open>
  Claim C10. The \<open>is_follow_up\<close> flag that \<open>detect_intent_with_context\<close> returns is true
  exactly when \<open>last_intent\<close> is set and occurs in its own entry of the follow-up table;
  it is the same for any two user inputs; and with the table of the source it is true
  exactly when \<open>last_intent\<close> is \<open>add_transaction\<close> or \<open>nlp_query\<close>.
\<close>

theorem C10_follow_up_flag_ignores_input:
  "det_is_follow_up (detect_intent_with_context user_input ctx)
     = (\<exists>li. last_intent ctx = Some li \<and> li \<in> set (dict_get follow_up_patterns li []))
   \<and> det_is_follow_up (detect_intent_with_context user_input ctx)
     = det_is_follow_up (detect_intent_with_context other_input ctx)
   \<and> det_is_follow_up (detect_intent_with_context user_input ctx)
     = (last_intent ctx = Some ''add_transaction'' \<or> last_intent ctx = Some ''nlp_query'')"
proof -
  have "det_is_follow_up (detect_intent_with_context x ctx)
     = (\<exists>li. last_intent ctx = Some li \<and> li \<in> set (dict_get follow_up_patterns li []))" for x
    by (cases "last_intent ctx")
       (auto simp: detect_intent_with_context_def is_follow_up_def Let_def own_entry)
  then show ?thesis by (auto simp: own_entry)
qed

section \<open>Unsafe queries\<close>




end
